theory Spec2Isabelle
  imports Main "HOL-Library.Word"
begin

unbundle bit_operations_syntax

section \<open>Registers and bitfields\<close>

text \<open>
  \<^verbatim>\<open>usb_wrap_ll.h\<close> programs three register banks: the USB Wrap bank behind the
  pointer \<^verbatim>\<open>hw\<close> (words \<^verbatim>\<open>otg_conf\<close> and \<^verbatim>\<open>test_conf\<close>), the RTC bank
  \<^verbatim>\<open>RTCCNTL\<close> (word \<^verbatim>\<open>usb_conf\<close>) and the system bank \<^verbatim>\<open>SYSTEM\<close> (words
  \<^verbatim>\<open>perip_clk_en0\<close> and \<^verbatim>\<open>perip_rst_en0\<close>). Every register is a 32-bit word,
  a C union of the word \<^verbatim>\<open>val\<close> with a struct of bitfields.
\<close>

datatype reg = OTG_CONF | TEST_CONF | RTC_USB_CONF | PERIP_CLK_EN0 | PERIP_RST_EN0

text \<open>The bitfields the header names, under the names the source gives them.\<close>

datatype fld =
    srp_sessend_override | srp_sessend_value | phy_sel
  | exchg_pins_override | exchg_pins
  | vrefh | vrefl | vref_override
  | pad_pull_override | dp_pullup | dp_pulldown | dm_pullup | dm_pulldown
  | pullup_value | pad_enable | phy_tx_edge_sel
  | test_enable | test_usb_wrap_oe | test_tx_dp | test_tx_dm
  | test_rx_rcv | test_rx_dp | test_rx_dm
  | sw_hw_usb_phy_sel | sw_usb_phy_sel
  | usb_clk_en | usb_rst

text \<open>The register word each bitfield lives in, as the source's access paths say
  (\<^verbatim>\<open>hw->otg_conf.phy_sel\<close>, \<^verbatim>\<open>RTCCNTL.usb_conf.sw_usb_phy_sel\<close>, ...).\<close>

fun reg_of :: "fld \<Rightarrow> reg" where
  "reg_of test_enable = TEST_CONF"
| "reg_of test_usb_wrap_oe = TEST_CONF"
| "reg_of test_tx_dp = TEST_CONF"
| "reg_of test_tx_dm = TEST_CONF"
| "reg_of test_rx_rcv = TEST_CONF"
| "reg_of test_rx_dp = TEST_CONF"
| "reg_of test_rx_dm = TEST_CONF"
| "reg_of sw_hw_usb_phy_sel = RTC_USB_CONF"
| "reg_of sw_usb_phy_sel = RTC_USB_CONF"
| "reg_of usb_clk_en = PERIP_CLK_EN0"
| "reg_of usb_rst = PERIP_RST_EN0"
| "reg_of _ = OTG_CONF"

text \<open>
  Modelled from the spec: the register map (\<^verbatim>\<open>soc/usb_wrap_struct.h\<close>,
  \<^verbatim>\<open>soc/rtc_cntl_struct.h\<close>, \<^verbatim>\<open>soc/system_struct.h\<close>) is not among the sources, so
  the width of each bitfield is taken from the spec: the two voltage steps are 2-bit
  quantities (the source documents them as 0 to 3), every other field is a single bit.
\<close>

fun width :: "fld \<Rightarrow> nat" where
  "width vrefh = 2"
| "width vrefl = 2"
| "width _ = 1"

text \<open>
  The bit offsets come from the same missing register map. They are a parameter of the
  model: a layout gives the position of the least significant bit of every field.
\<close>

type_synonym layout = "fld \<Rightarrow> nat"

definition all_fields :: "fld list" where
  "all_fields =
    [srp_sessend_override, srp_sessend_value, phy_sel, exchg_pins_override, exchg_pins,
     vrefh, vrefl, vref_override, pad_pull_override, dp_pullup, dp_pulldown, dm_pullup,
     dm_pulldown, pullup_value, pad_enable, phy_tx_edge_sel,
     test_enable, test_usb_wrap_oe, test_tx_dp, test_tx_dm, test_rx_rcv, test_rx_dp,
     test_rx_dm, sw_hw_usb_phy_sel, sw_usb_phy_sel, usb_clk_en, usb_rst]"

definition fits :: "layout \<Rightarrow> fld \<Rightarrow> bool" where
  "fits L f \<longleftrightarrow> L f + width f \<le> 32"

definition apart :: "layout \<Rightarrow> fld \<Rightarrow> fld \<Rightarrow> bool" where
  "apart L f g \<longleftrightarrow>
     reg_of f \<noteq> reg_of g \<or> L f + width f \<le> L g \<or> L g + width g \<le> L f"

text \<open>A layout is well formed when every field lies inside its 32-bit word and two
  different fields of one word share no bit, as the fields of a C struct do.\<close>

definition wf_layout :: "layout \<Rightarrow> bool" where
  "wf_layout L \<longleftrightarrow>
     list_all (fits L) all_fields \<and>
     list_all (\<lambda>f. list_all (\<lambda>g. f = g \<or> apart L f g) all_fields) all_fields"

text \<open>Bit \<open>n\<close> of the word belongs to field \<open>f\<close>.\<close>

definition owns :: "layout \<Rightarrow> fld \<Rightarrow> nat \<Rightarrow> bool" where
  "owns L f n \<longleftrightarrow> L f \<le> n \<and> n < L f + width f"

text \<open>Reading and assigning a bitfield of \<open>w\<close> bits at offset \<open>lsb\<close> through the
  union: the assigned value is converted to the field's width (an unsigned bitfield keeps
  the value modulo \<open>2 ^ w\<close>), the other bits of the word stay.\<close>

definition field_get :: "nat \<Rightarrow> nat \<Rightarrow> 32 word \<Rightarrow> 32 word" where
  "field_get lsb w r = take_bit w (drop_bit lsb r)"

definition field_set :: "nat \<Rightarrow> nat \<Rightarrow> 32 word \<Rightarrow> 32 word \<Rightarrow> 32 word" where
  "field_set lsb w v r = (r AND NOT (push_bit lsb (mask w))) OR push_bit lsb (take_bit w v)"

text \<open>A bitfield of a local (non-hardware) register value, as in
  \<^verbatim>\<open>test_conf.test_tx_dp = tx_dp\<close>.\<close>

definition get_fld :: "layout \<Rightarrow> fld \<Rightarrow> 32 word \<Rightarrow> 32 word" where
  "get_fld L f r = field_get (L f) (width f) r"

definition set_fld :: "layout \<Rightarrow> fld \<Rightarrow> 32 word \<Rightarrow> 32 word \<Rightarrow> 32 word" where
  "set_fld L f v r = field_set (L f) (width f) v r"

section \<open>The instrumented register banks\<close>

text \<open>
  The hardware state is the content of the five register words together with the
  sequence of accesses made so far, oldest first: the register mock of the spec's
  testable properties. An assignment to a bitfield of a hardware register is one
  \<open>FieldStore\<close> (the value as stored, that is, converted to the field's width), a
  read of one a \<open>FieldLoad\<close>; accesses to the whole word through \<^verbatim>\<open>val\<close> are
  \<open>Load\<close> and \<open>Store\<close>.
\<close>

datatype event =
    FieldLoad fld
  | FieldStore fld "32 word"
  | Load reg
  | Store reg "32 word"

fun is_write :: "event \<Rightarrow> bool" where
  "is_write (FieldStore f v) = True"
| "is_write (Store r v) = True"
| "is_write _ = False"

record machine =
  regs :: "reg \<Rightarrow> 32 word"
  trace :: "event list"

text \<open>The current value of a bitfield (an observation of the state, not an access).\<close>

definition field_of :: "layout \<Rightarrow> fld \<Rightarrow> machine \<Rightarrow> 32 word" where
  "field_of L f s = get_fld L f (regs s (reg_of f))"

definition store_field :: "layout \<Rightarrow> fld \<Rightarrow> 32 word \<Rightarrow> machine \<Rightarrow> machine" where
  "store_field L f v s =
     s\<lparr>regs := (regs s)(reg_of f := set_fld L f v (regs s (reg_of f))),
       trace := trace s @ [FieldStore f (take_bit (width f) v)]\<rparr>"

definition load_field :: "layout \<Rightarrow> fld \<Rightarrow> machine \<Rightarrow> 32 word \<times> machine" where
  "load_field L f s = (field_of L f s, s\<lparr>trace := trace s @ [FieldLoad f]\<rparr>)"

definition load_val :: "reg \<Rightarrow> machine \<Rightarrow> 32 word \<times> machine" where
  "load_val r s = (regs s r, s\<lparr>trace := trace s @ [Load r]\<rparr>)"

definition store_val :: "reg \<Rightarrow> 32 word \<Rightarrow> machine \<Rightarrow> machine" where
  "store_val r v s = s\<lparr>regs := (regs s)(r := v), trace := trace s @ [Store r v]\<rparr>"

text \<open>A C \<^verbatim>\<open>bool\<close> converted to an integer is 0 or 1; an integer converted to
  \<^verbatim>\<open>bool\<close> is true when it is not 0.\<close>

definition of_c_bool :: "bool \<Rightarrow> 32 word" where
  "of_c_bool b = (if b then 1 else 0)"

definition to_c_bool :: "32 word \<Rightarrow> bool" where
  "to_c_bool v \<longleftrightarrow> v \<noteq> 0"

section \<open>The operations of \<^verbatim>\<open>usb_wrap_ll.h\<close>\<close>

text \<open>Each function takes the layout and the state and returns the state after the call;
  the pointer \<^verbatim>\<open>hw\<close> denotes the USB Wrap bank of the state.\<close>

subsection \<open>USB PHY control\<close>

definition usb_wrap_ll_phy_enable_srp_sessend_override ::
  "layout \<Rightarrow> bool \<Rightarrow> machine \<Rightarrow> machine" where
  "usb_wrap_ll_phy_enable_srp_sessend_override L sessend s =
     (let s = store_field L srp_sessend_value (of_c_bool sessend) s;
          s = store_field L srp_sessend_override 1 s
      in s)"

definition usb_wrap_ll_phy_disable_srp_sessend_override :: "layout \<Rightarrow> machine \<Rightarrow> machine" where
  "usb_wrap_ll_phy_disable_srp_sessend_override L s =
     store_field L srp_sessend_override 0 s"

definition usb_wrap_ll_phy_enable_external :: "layout \<Rightarrow> bool \<Rightarrow> machine \<Rightarrow> machine" where
  "usb_wrap_ll_phy_enable_external L enable s =
     (let s = store_field L phy_sel (of_c_bool enable) s;
          s = store_field L sw_hw_usb_phy_sel 1 s;
          s = store_field L sw_usb_phy_sel (of_c_bool (\<not> enable)) s
      in s)"

definition usb_wrap_ll_phy_enable_pin_exchg :: "layout \<Rightarrow> bool \<Rightarrow> machine \<Rightarrow> machine" where
  "usb_wrap_ll_phy_enable_pin_exchg L enable s =
     (if enable then
        (let s = store_field L exchg_pins 1 s;
             s = store_field L exchg_pins_override 1 s
         in s)
      else
        (let s = store_field L exchg_pins_override 0 s;
             s = store_field L exchg_pins 0 s
         in s))"

definition usb_wrap_ll_phy_enable_vref_override ::
  "layout \<Rightarrow> 32 word \<Rightarrow> 32 word \<Rightarrow> machine \<Rightarrow> machine" where
  "usb_wrap_ll_phy_enable_vref_override L vrefh_step vrefl_step s =
     (let s = store_field L vrefh vrefh_step s;
          s = store_field L vrefl vrefl_step s;
          s = store_field L vref_override 1 s
      in s)"

definition usb_wrap_ll_phy_disable_vref_override :: "layout \<Rightarrow> machine \<Rightarrow> machine" where
  "usb_wrap_ll_phy_disable_vref_override L s = store_field L vref_override 0 s"

definition usb_wrap_ll_phy_enable_pull_override ::
  "layout \<Rightarrow> bool \<Rightarrow> bool \<Rightarrow> bool \<Rightarrow> bool \<Rightarrow> machine \<Rightarrow> machine" where
  "usb_wrap_ll_phy_enable_pull_override L dp_pu dm_pu dp_pd dm_pd s =
     (let s = store_field L dp_pullup (of_c_bool dp_pu) s;
          s = store_field L dp_pulldown (of_c_bool dp_pd) s;
          s = store_field L dm_pullup (of_c_bool dm_pu) s;
          s = store_field L dm_pulldown (of_c_bool dm_pd) s;
          s = store_field L pad_pull_override 1 s
      in s)"

definition usb_wrap_ll_phy_disable_pull_override :: "layout \<Rightarrow> machine \<Rightarrow> machine" where
  "usb_wrap_ll_phy_disable_pull_override L s = store_field L pad_pull_override 0 s"

definition usb_wrap_ll_phy_set_pullup_strength :: "layout \<Rightarrow> bool \<Rightarrow> machine \<Rightarrow> machine" where
  "usb_wrap_ll_phy_set_pullup_strength L strong s =
     store_field L pullup_value (of_c_bool strong) s"

definition usb_wrap_ll_phy_is_pad_enabled :: "layout \<Rightarrow> machine \<Rightarrow> bool \<times> machine" where
  "usb_wrap_ll_phy_is_pad_enabled L s =
     (let (v, s) = load_field L pad_enable s in (to_c_bool v, s))"

definition usb_wrap_ll_phy_enable_pad :: "layout \<Rightarrow> bool \<Rightarrow> machine \<Rightarrow> machine" where
  "usb_wrap_ll_phy_enable_pad L enable s = store_field L pad_enable (of_c_bool enable) s"

definition usb_wrap_ll_phy_set_tx_edge :: "layout \<Rightarrow> bool \<Rightarrow> machine \<Rightarrow> machine" where
  "usb_wrap_ll_phy_set_tx_edge L clk_neg_edge s =
     store_field L phy_tx_edge_sel (of_c_bool clk_neg_edge) s"

subsection \<open>USB PHY test\<close>

definition usb_wrap_ll_phy_enable_test_mode :: "layout \<Rightarrow> bool \<Rightarrow> machine \<Rightarrow> machine" where
  "usb_wrap_ll_phy_enable_test_mode L enable s =
     store_field L test_enable (of_c_bool enable) s"

text \<open>The local \<^verbatim>\<open>test_conf\<close> is a plain register value: its six bitfield
  assignments touch no hardware, and the composed word goes out in the one store.\<close>

definition usb_wrap_ll_phy_test_mode_set_signals ::
  "layout \<Rightarrow> bool \<Rightarrow> bool \<Rightarrow> bool \<Rightarrow> bool \<Rightarrow> bool \<Rightarrow> bool \<Rightarrow> machine \<Rightarrow> machine" where
  "usb_wrap_ll_phy_test_mode_set_signals L oen tx_dp tx_dm rx_dp rx_dm rx_rcv s =
     (let (test_conf, s) = load_val TEST_CONF s;
          test_conf = set_fld L test_usb_wrap_oe (of_c_bool oen) test_conf;
          test_conf = set_fld L test_tx_dp (of_c_bool tx_dp) test_conf;
          test_conf = set_fld L test_tx_dm (of_c_bool tx_dm) test_conf;
          test_conf = set_fld L test_rx_rcv (of_c_bool rx_rcv) test_conf;
          test_conf = set_fld L test_rx_dp (of_c_bool rx_dp) test_conf;
          test_conf = set_fld L test_rx_dm (of_c_bool rx_dm) test_conf
      in store_val TEST_CONF test_conf s)"

subsection \<open>RCC functions\<close>

definition usb_wrap_ll_enable_bus_clock :: "layout \<Rightarrow> bool \<Rightarrow> machine \<Rightarrow> machine" where
  "usb_wrap_ll_enable_bus_clock L clk_en s = store_field L usb_clk_en (of_c_bool clk_en) s"

definition usb_wrap_ll_reset_register :: "layout \<Rightarrow> machine \<Rightarrow> machine" where
  "usb_wrap_ll_reset_register L s =
     (let s = store_field L usb_rst 1 s;
          s = store_field L usb_rst 0 s
      in s)"

section \<open>The interface as a whole\<close>

text \<open>One constructor for each function of the header, with its arguments, and the
  state after calling it (the value a query returns is dropped).\<close>

datatype operation =
    Enable_srp_sessend_override bool
  | Disable_srp_sessend_override
  | Enable_external bool
  | Enable_pin_exchg bool
  | Enable_vref_override "32 word" "32 word"
  | Disable_vref_override
  | Enable_pull_override bool bool bool bool
  | Disable_pull_override
  | Set_pullup_strength bool
  | Is_pad_enabled
  | Enable_pad bool
  | Set_tx_edge bool
  | Enable_test_mode bool
  | Test_mode_set_signals bool bool bool bool bool bool
  | Enable_bus_clock bool
  | Reset_register

fun call :: "layout \<Rightarrow> operation \<Rightarrow> machine \<Rightarrow> machine" where
  "call L (Enable_srp_sessend_override sessend) s =
     usb_wrap_ll_phy_enable_srp_sessend_override L sessend s"
| "call L Disable_srp_sessend_override s = usb_wrap_ll_phy_disable_srp_sessend_override L s"
| "call L (Enable_external enable) s = usb_wrap_ll_phy_enable_external L enable s"
| "call L (Enable_pin_exchg enable) s = usb_wrap_ll_phy_enable_pin_exchg L enable s"
| "call L (Enable_vref_override vrefh_step vrefl_step) s =
     usb_wrap_ll_phy_enable_vref_override L vrefh_step vrefl_step s"
| "call L Disable_vref_override s = usb_wrap_ll_phy_disable_vref_override L s"
| "call L (Enable_pull_override dp_pu dm_pu dp_pd dm_pd) s =
     usb_wrap_ll_phy_enable_pull_override L dp_pu dm_pu dp_pd dm_pd s"
| "call L Disable_pull_override s = usb_wrap_ll_phy_disable_pull_override L s"
| "call L (Set_pullup_strength strong) s = usb_wrap_ll_phy_set_pullup_strength L strong s"
| "call L Is_pad_enabled s = snd (usb_wrap_ll_phy_is_pad_enabled L s)"
| "call L (Enable_pad enable) s = usb_wrap_ll_phy_enable_pad L enable s"
| "call L (Set_tx_edge clk_neg_edge) s = usb_wrap_ll_phy_set_tx_edge L clk_neg_edge s"
| "call L (Enable_test_mode enable) s = usb_wrap_ll_phy_enable_test_mode L enable s"
| "call L (Test_mode_set_signals oen tx_dp tx_dm rx_dp rx_dm rx_rcv) s =
     usb_wrap_ll_phy_test_mode_set_signals L oen tx_dp tx_dm rx_dp rx_dm rx_rcv s"
| "call L (Enable_bus_clock clk_en) s = usb_wrap_ll_enable_bus_clock L clk_en s"
| "call L Reset_register s = usb_wrap_ll_reset_register L s"

fun is_enable_test_mode :: "operation \<Rightarrow> bool" where
  "is_enable_test_mode (Enable_test_mode enable) = True"
| "is_enable_test_mode _ = False"

section \<open>A concrete layout and a concrete state\<close>

text \<open>The bit offsets of the ESP32-S3 register map, and states in which nothing has been
  accessed yet. The general theorems below hold for every well-formed layout and every
  state; they are instantiated on these.\<close>

fun esp32s3_layout :: layout where
  "esp32s3_layout srp_sessend_override = 0"
| "esp32s3_layout srp_sessend_value = 1"
| "esp32s3_layout phy_sel = 2"
| "esp32s3_layout exchg_pins_override = 5"
| "esp32s3_layout exchg_pins = 6"
| "esp32s3_layout vrefh = 7"
| "esp32s3_layout vrefl = 9"
| "esp32s3_layout vref_override = 11"
| "esp32s3_layout pad_pull_override = 12"
| "esp32s3_layout dp_pullup = 13"
| "esp32s3_layout dp_pulldown = 14"
| "esp32s3_layout dm_pullup = 15"
| "esp32s3_layout dm_pulldown = 16"
| "esp32s3_layout pullup_value = 17"
| "esp32s3_layout pad_enable = 18"
| "esp32s3_layout phy_tx_edge_sel = 21"
| "esp32s3_layout test_enable = 0"
| "esp32s3_layout test_usb_wrap_oe = 1"
| "esp32s3_layout test_tx_dp = 2"
| "esp32s3_layout test_tx_dm = 3"
| "esp32s3_layout test_rx_rcv = 4"
| "esp32s3_layout test_rx_dp = 5"
| "esp32s3_layout test_rx_dm = 6"
| "esp32s3_layout sw_usb_phy_sel = 19"
| "esp32s3_layout sw_hw_usb_phy_sel = 20"
| "esp32s3_layout usb_clk_en = 23"
| "esp32s3_layout usb_rst = 23"

definition all_ones :: machine where
  "all_ones = \<lparr>regs = (\<lambda>r. 0xFFFFFFFF), trace = []\<rparr>"

definition all_zeros :: machine where
  "all_zeros = \<lparr>regs = (\<lambda>r. 0), trace = []\<rparr>"

text \<open>A state whose words have only bit 31 (a sentinel outside every named field of the
  concrete layout) and bit 0 set.\<close>

definition sentinel_state :: machine where
  "sentinel_state = \<lparr>regs = (\<lambda>r. 0x80000001), trace = []\<rparr>"

section \<open>Bitfield lemmas\<close>

lemma bit_field_set:
  "bit (field_set lsb w v r) n =
     (if lsb \<le> n \<and> n < lsb + w then n < 32 \<and> bit v (n - lsb) else bit r n)"
  by (auto simp add: field_set_def bit_simps dest: bit_imp_le_length)

lemma bit_field_get:
  "bit (field_get lsb w r) n = (n < w \<and> bit r (lsb + n))"
  by (auto simp add: field_get_def bit_simps)

lemma field_get_set_same:
  "lsb + w \<le> 32 \<Longrightarrow> field_get lsb w (field_set lsb w v r) = take_bit w v"
  by (rule bit_eqI)
    (auto simp add: bit_field_get bit_field_set bit_simps dest: bit_imp_le_length)

lemma field_get_set_other:
  "l1 + w1 \<le> l2 \<or> l2 + w2 \<le> l1 \<Longrightarrow>
   field_get l2 w2 (field_set l1 w1 v r) = field_get l2 w2 r"
  by (rule bit_eqI) (auto simp add: bit_field_get bit_field_set)

lemma in_all_fields: "f \<in> set all_fields"
  by (cases f) (simp_all add: all_fields_def)

lemma wf_fits: "wf_layout L \<Longrightarrow> L f + width f \<le> 32"
  using in_all_fields [of f] by (auto simp add: wf_layout_def list_all_iff fits_def)

lemma wf_apart:
  "wf_layout L \<Longrightarrow> f \<noteq> g \<Longrightarrow> reg_of f = reg_of g \<Longrightarrow>
   L f + width f \<le> L g \<or> L g + width g \<le> L f"
  using in_all_fields [of f] in_all_fields [of g]
  by (auto simp add: wf_layout_def list_all_iff apart_def)

lemma esp32s3_layout_wf: "wf_layout esp32s3_layout"
  by (simp add: wf_layout_def all_fields_def fits_def apart_def)

lemma get_set_fld_same:
  "wf_layout L \<Longrightarrow> get_fld L f (set_fld L f v r) = take_bit (width f) v"
  by (simp add: get_fld_def set_fld_def field_get_set_same wf_fits)

lemma get_set_fld_other:
  "wf_layout L \<Longrightarrow> f \<noteq> g \<Longrightarrow> reg_of f = reg_of g \<Longrightarrow>
   get_fld L g (set_fld L f v r) = get_fld L g r"
  using wf_apart [of L f g] by (simp add: get_fld_def set_fld_def field_get_set_other)

lemma bit_set_fld:
  "wf_layout L \<Longrightarrow>
   bit (set_fld L f v r) n = (if owns L f n then bit v (n - L f) else bit r n)"
  using wf_fits [of L f] by (auto simp add: set_fld_def bit_field_set owns_def)

section \<open>Effect of one bitfield store on the state\<close>

lemma field_of_store_field:
  "wf_layout L \<Longrightarrow>
   field_of L g (store_field L f v s) =
     (if g = f then take_bit (width f) v else field_of L g s)"
  by (simp add: field_of_def store_field_def get_set_fld_same get_set_fld_other)

lemma trace_store_field:
  "trace (store_field L f v s) = trace s @ [FieldStore f (take_bit (width f) v)]"
  by (simp add: store_field_def)

lemma bit_regs_store_field:
  "wf_layout L \<Longrightarrow>
   bit (regs (store_field L f v s) r) n =
     (if r = reg_of f \<and> owns L f n then bit v (n - L f) else bit (regs s r) n)"
  by (simp add: store_field_def bit_set_fld)

lemma of_c_bool_simps: "of_c_bool True = 1" "of_c_bool False = 0"
  by (simp_all add: of_c_bool_def)

lemma of_c_bool_mod2: "of_c_bool b mod 2 = of_c_bool b"
  by (simp add: of_c_bool_def)

section \<open>PHY routing\<close>

text \<open>
  Claim C1. For every boolean \<open>enable\<close> and every prior state, after
  \<^verbatim>\<open>usb_wrap_ll_phy_enable_external\<close> the field \<^verbatim>\<open>phy_sel\<close> of the wrap bank equals
  \<open>enable\<close>, the field \<^verbatim>\<open>sw_usb_phy_sel\<close> of the RTC bank equals its complement and
  the field \<^verbatim>\<open>sw_hw_usb_phy_sel\<close> is 1 whatever \<open>enable\<close> is; calling it with true and
  then with false leaves \<^verbatim>\<open>phy_sel\<close> = 0, \<^verbatim>\<open>sw_usb_phy_sel\<close> = 1 and
  \<^verbatim>\<open>sw_hw_usb_phy_sel\<close> = 1.
\<close>

theorem enable_external_routing:
  assumes "wf_layout L"
  shows "field_of L phy_sel (usb_wrap_ll_phy_enable_external L enable s) = of_c_bool enable
    \<and> field_of L sw_usb_phy_sel (usb_wrap_ll_phy_enable_external L enable s)
        = of_c_bool (\<not> enable)
    \<and> field_of L sw_hw_usb_phy_sel (usb_wrap_ll_phy_enable_external L enable s) = 1
    \<and> field_of L phy_sel
        (usb_wrap_ll_phy_enable_external L False (usb_wrap_ll_phy_enable_external L True s)) = 0
    \<and> field_of L sw_usb_phy_sel
        (usb_wrap_ll_phy_enable_external L False (usb_wrap_ll_phy_enable_external L True s)) = 1
    \<and> field_of L sw_hw_usb_phy_sel
        (usb_wrap_ll_phy_enable_external L False (usb_wrap_ll_phy_enable_external L True s)) = 1"
  using assms
  by (simp add: usb_wrap_ll_phy_enable_external_def field_of_store_field
      of_c_bool_mod2 of_c_bool_simps)

theorem enable_external_routing_witness:
  "wf_layout esp32s3_layout
    \<and> field_of esp32s3_layout phy_sel
        (usb_wrap_ll_phy_enable_external esp32s3_layout True all_zeros) = 1
    \<and> field_of esp32s3_layout sw_usb_phy_sel
        (usb_wrap_ll_phy_enable_external esp32s3_layout True all_zeros) = 0
    \<and> field_of esp32s3_layout sw_hw_usb_phy_sel
        (usb_wrap_ll_phy_enable_external esp32s3_layout True all_zeros) = 1
    \<and> field_of esp32s3_layout phy_sel
        (usb_wrap_ll_phy_enable_external esp32s3_layout False
          (usb_wrap_ll_phy_enable_external esp32s3_layout True all_zeros)) = 0
    \<and> field_of esp32s3_layout sw_usb_phy_sel
        (usb_wrap_ll_phy_enable_external esp32s3_layout False
          (usb_wrap_ll_phy_enable_external esp32s3_layout True all_zeros)) = 1
    \<and> field_of esp32s3_layout sw_hw_usb_phy_sel
        (usb_wrap_ll_phy_enable_external esp32s3_layout False
          (usb_wrap_ll_phy_enable_external esp32s3_layout True all_zeros)) = 1"
  using enable_external_routing [OF esp32s3_layout_wf, of True all_zeros] esp32s3_layout_wf
  by (simp add: of_c_bool_simps)

section \<open>Write order\<close>

text \<open>
  Claim C2. \<^verbatim>\<open>usb_wrap_ll_phy_enable_pin_exchg\<close> called with true is the store of 1
  to \<^verbatim>\<open>exchg_pins\<close> followed by the store of 1 to \<^verbatim>\<open>exchg_pins_override\<close>, and
  these two writes, in this order, are all it adds to the access trace. Between the two
  writes \<^verbatim>\<open>exchg_pins\<close> already reads 1 while \<^verbatim>\<open>exchg_pins_override\<close> still has
  its prior value; on return both read 1. Called with false it is the store of 0 to
  \<^verbatim>\<open>exchg_pins_override\<close> followed by the store of 0 to \<^verbatim>\<open>exchg_pins\<close>: between
  the two writes the override reads 0 while \<^verbatim>\<open>exchg_pins\<close> still has its prior value,
  and on return both read 0. In every one of these states each register bit \<open>n\<close> of
  each register \<open>r\<close> outside the fields written so far is as it was before the call.
\<close>

theorem pin_exchg_write_order:
  "trace (usb_wrap_ll_phy_enable_pin_exchg L True s) =
     trace s @ [FieldStore exchg_pins 1, FieldStore exchg_pins_override 1]
   \<and> trace (usb_wrap_ll_phy_enable_pin_exchg L False s) =
     trace s @ [FieldStore exchg_pins_override 0, FieldStore exchg_pins 0]
   \<and> usb_wrap_ll_phy_enable_pin_exchg L True s =
     store_field L exchg_pins_override 1 (store_field L exchg_pins 1 s)
   \<and> usb_wrap_ll_phy_enable_pin_exchg L False s =
     store_field L exchg_pins 0 (store_field L exchg_pins_override 0 s)
   \<and> (wf_layout L \<longrightarrow>
        field_of L exchg_pins (store_field L exchg_pins 1 s) = 1
      \<and> field_of L exchg_pins_override (store_field L exchg_pins 1 s)
          = field_of L exchg_pins_override s
      \<and> (\<not> (r = OTG_CONF \<and> owns L exchg_pins n) \<longrightarrow>
           bit (regs (store_field L exchg_pins 1 s) r) n = bit (regs s r) n)
      \<and> field_of L exchg_pins (usb_wrap_ll_phy_enable_pin_exchg L True s) = 1
      \<and> field_of L exchg_pins_override (usb_wrap_ll_phy_enable_pin_exchg L True s) = 1
      \<and> (\<not> (r = OTG_CONF \<and> (owns L exchg_pins n \<or> owns L exchg_pins_override n)) \<longrightarrow>
           bit (regs (usb_wrap_ll_phy_enable_pin_exchg L True s) r) n = bit (regs s r) n)
      \<and> field_of L exchg_pins_override (store_field L exchg_pins_override 0 s) = 0
      \<and> field_of L exchg_pins (store_field L exchg_pins_override 0 s)
          = field_of L exchg_pins s
      \<and> (\<not> (r = OTG_CONF \<and> owns L exchg_pins_override n) \<longrightarrow>
           bit (regs (store_field L exchg_pins_override 0 s) r) n = bit (regs s r) n)
      \<and> field_of L exchg_pins_override (usb_wrap_ll_phy_enable_pin_exchg L False s) = 0
      \<and> field_of L exchg_pins (usb_wrap_ll_phy_enable_pin_exchg L False s) = 0
      \<and> (\<not> (r = OTG_CONF \<and> (owns L exchg_pins n \<or> owns L exchg_pins_override n)) \<longrightarrow>
           bit (regs (usb_wrap_ll_phy_enable_pin_exchg L False s) r) n = bit (regs s r) n))"
  by (simp add: usb_wrap_ll_phy_enable_pin_exchg_def trace_store_field
      field_of_store_field bit_regs_store_field)

theorem pin_exchg_write_order_witness:
  "wf_layout esp32s3_layout
   \<and> trace (usb_wrap_ll_phy_enable_pin_exchg esp32s3_layout True all_zeros) =
       [FieldStore exchg_pins 1, FieldStore exchg_pins_override 1]
   \<and> field_of esp32s3_layout exchg_pins (store_field esp32s3_layout exchg_pins 1 all_zeros) = 1
   \<and> field_of esp32s3_layout exchg_pins_override
       (store_field esp32s3_layout exchg_pins 1 all_zeros) = 0
   \<and> field_of esp32s3_layout exchg_pins
       (usb_wrap_ll_phy_enable_pin_exchg esp32s3_layout True all_zeros) = 1
   \<and> field_of esp32s3_layout exchg_pins_override
       (usb_wrap_ll_phy_enable_pin_exchg esp32s3_layout True all_zeros) = 1
   \<and> \<not> bit (regs (usb_wrap_ll_phy_enable_pin_exchg esp32s3_layout True all_zeros) OTG_CONF) 7
   \<and> trace (usb_wrap_ll_phy_enable_pin_exchg esp32s3_layout False all_ones) =
       [FieldStore exchg_pins_override 0, FieldStore exchg_pins 0]
   \<and> field_of esp32s3_layout exchg_pins_override
       (store_field esp32s3_layout exchg_pins_override 0 all_ones) = 0
   \<and> field_of esp32s3_layout exchg_pins
       (store_field esp32s3_layout exchg_pins_override 0 all_ones) = 1
   \<and> field_of esp32s3_layout exchg_pins_override
       (usb_wrap_ll_phy_enable_pin_exchg esp32s3_layout False all_ones) = 0
   \<and> field_of esp32s3_layout exchg_pins
       (usb_wrap_ll_phy_enable_pin_exchg esp32s3_layout False all_ones) = 0
   \<and> bit (regs (usb_wrap_ll_phy_enable_pin_exchg esp32s3_layout False all_ones) OTG_CONF) 7"
proof -
  have prior: "field_of esp32s3_layout exchg_pins_override all_zeros = 0"
    "field_of esp32s3_layout exchg_pins all_ones = 1"
    "\<not> bit (regs all_zeros OTG_CONF) 7"
    "bit (regs all_ones OTG_CONF) 7"
    "\<not> owns esp32s3_layout exchg_pins 7"
    "\<not> owns esp32s3_layout exchg_pins_override 7"
    "trace all_zeros = []" "trace all_ones = []"
    by (simp_all add: field_of_def get_fld_def field_get_def all_zeros_def all_ones_def
        owns_def bit_simps)
  note on = pin_exchg_write_order [of esp32s3_layout all_zeros OTG_CONF 7]
  note off = pin_exchg_write_order [of esp32s3_layout all_ones OTG_CONF 7]
  note on_trace = on [THEN conjunct1]
  note off_trace = off [THEN conjunct2, THEN conjunct1]
  note on_regs = on [THEN conjunct2, THEN conjunct2, THEN conjunct2, THEN conjunct2,
      THEN mp, OF esp32s3_layout_wf]
  note off_regs = off [THEN conjunct2, THEN conjunct2, THEN conjunct2, THEN conjunct2,
      THEN mp, OF esp32s3_layout_wf]
  show ?thesis
    using on_trace off_trace on_regs off_regs esp32s3_layout_wf prior
    by simp
qed

text \<open>
  Claim C3. \<^verbatim>\<open>usb_wrap_ll_reset_register\<close> adds exactly two accesses to the trace,
  the write of 1 to \<^verbatim>\<open>usb_rst\<close> followed by the write of 0 to it, and on return the
  field \<^verbatim>\<open>usb_rst\<close> is 0 whatever it was before.
\<close>

theorem reset_register_pulse:
  assumes "wf_layout L"
  shows "trace (usb_wrap_ll_reset_register L s) =
      trace s @ [FieldStore usb_rst 1, FieldStore usb_rst 0]
    \<and> field_of L usb_rst (usb_wrap_ll_reset_register L s) = 0"
  using assms
  by (simp add: usb_wrap_ll_reset_register_def trace_store_field field_of_store_field)

theorem reset_register_pulse_witness:
  "wf_layout esp32s3_layout
    \<and> trace (usb_wrap_ll_reset_register esp32s3_layout all_ones) =
        [FieldStore usb_rst 1, FieldStore usb_rst 0]
    \<and> field_of esp32s3_layout usb_rst (usb_wrap_ll_reset_register esp32s3_layout all_ones) = 0"
  using reset_register_pulse [OF esp32s3_layout_wf, of all_ones] esp32s3_layout_wf
  by (simp add: all_ones_def)

section \<open>Test signals\<close>

lemma set_signals_trace:
  "trace (usb_wrap_ll_phy_test_mode_set_signals L oen tx_dp tx_dm rx_dp rx_dm rx_rcv s) =
     trace s @ [Load TEST_CONF,
       Store TEST_CONF
         (regs (usb_wrap_ll_phy_test_mode_set_signals L oen tx_dp tx_dm rx_dp rx_dm rx_rcv s)
            TEST_CONF)]"
  by (simp add: usb_wrap_ll_phy_test_mode_set_signals_def load_val_def store_val_def Let_def)

lemma set_signals_regs_other:
  "r \<noteq> TEST_CONF \<Longrightarrow>
   regs (usb_wrap_ll_phy_test_mode_set_signals L oen tx_dp tx_dm rx_dp rx_dm rx_rcv s) r
     = regs s r"
  by (simp add: usb_wrap_ll_phy_test_mode_set_signals_def load_val_def store_val_def Let_def)

lemma set_signals_field:
  assumes "wf_layout L" and "reg_of f = TEST_CONF"
  shows "field_of L f
      (usb_wrap_ll_phy_test_mode_set_signals L oen tx_dp tx_dm rx_dp rx_dm rx_rcv s) =
     (if f = test_rx_dm then of_c_bool rx_dm
      else if f = test_rx_dp then of_c_bool rx_dp
      else if f = test_rx_rcv then of_c_bool rx_rcv
      else if f = test_tx_dm then of_c_bool tx_dm
      else if f = test_tx_dp then of_c_bool tx_dp
      else if f = test_usb_wrap_oe then of_c_bool oen
      else field_of L f s)"
  using assms
  by (simp add: usb_wrap_ll_phy_test_mode_set_signals_def load_val_def store_val_def Let_def
      field_of_def get_set_fld_same get_set_fld_other of_c_bool_mod2)

lemma set_signals_bit:
  assumes "wf_layout L"
    and "\<not> owns L test_usb_wrap_oe n" and "\<not> owns L test_tx_dp n"
    and "\<not> owns L test_tx_dm n" and "\<not> owns L test_rx_dp n"
    and "\<not> owns L test_rx_dm n" and "\<not> owns L test_rx_rcv n"
  shows "bit (regs (usb_wrap_ll_phy_test_mode_set_signals L oen tx_dp tx_dm rx_dp rx_dm rx_rcv s)
           TEST_CONF) n = bit (regs s TEST_CONF) n"
  using assms
  by (simp add: usb_wrap_ll_phy_test_mode_set_signals_def load_val_def store_val_def Let_def
      bit_set_fld)

text \<open>
  Claim C4. For every prior content of the test-configuration word and all six boolean
  inputs, \<^verbatim>\<open>usb_wrap_ll_phy_test_mode_set_signals\<close> makes one read of the word and one
  write of the composed word, and nothing else; in the written word each of the six signal
  fields holds its argument, and every bit \<open>n\<close> that belongs to none of the six fields
  is as it was before. Every other register \<open>r\<close> keeps its content.
\<close>

theorem set_signals_read_modify_write:
  assumes "wf_layout L"
    and "s' = usb_wrap_ll_phy_test_mode_set_signals L oen tx_dp tx_dm rx_dp rx_dm rx_rcv s"
  shows "trace s' = trace s @ [Load TEST_CONF, Store TEST_CONF (regs s' TEST_CONF)]
    \<and> field_of L test_usb_wrap_oe s' = of_c_bool oen
    \<and> field_of L test_tx_dp s' = of_c_bool tx_dp
    \<and> field_of L test_tx_dm s' = of_c_bool tx_dm
    \<and> field_of L test_rx_dp s' = of_c_bool rx_dp
    \<and> field_of L test_rx_dm s' = of_c_bool rx_dm
    \<and> field_of L test_rx_rcv s' = of_c_bool rx_rcv
    \<and> (\<not> owns L test_usb_wrap_oe n \<and> \<not> owns L test_tx_dp n \<and> \<not> owns L test_tx_dm n
          \<and> \<not> owns L test_rx_dp n \<and> \<not> owns L test_rx_dm n \<and> \<not> owns L test_rx_rcv n
        \<longrightarrow> bit (regs s' TEST_CONF) n = bit (regs s TEST_CONF) n)
    \<and> (r \<noteq> TEST_CONF \<longrightarrow> regs s' r = regs s r)"
proof -
  note f = set_signals_field [OF assms(1), of _ oen tx_dp tx_dm rx_dp rx_dm rx_rcv s]
  have "trace s' = trace s @ [Load TEST_CONF, Store TEST_CONF (regs s' TEST_CONF)]"
    unfolding assms(2) by (rule set_signals_trace)
  moreover have "field_of L test_usb_wrap_oe s' = of_c_bool oen"
    and "field_of L test_tx_dp s' = of_c_bool tx_dp"
    and "field_of L test_tx_dm s' = of_c_bool tx_dm"
    and "field_of L test_rx_dp s' = of_c_bool rx_dp"
    and "field_of L test_rx_dm s' = of_c_bool rx_dm"
    and "field_of L test_rx_rcv s' = of_c_bool rx_rcv"
    unfolding assms(2) by (simp_all add: f)
  moreover have "\<not> owns L test_usb_wrap_oe n \<and> \<not> owns L test_tx_dp n
          \<and> \<not> owns L test_tx_dm n
          \<and> \<not> owns L test_rx_dp n \<and> \<not> owns L test_rx_dm n \<and> \<not> owns L test_rx_rcv n
        \<longrightarrow> bit (regs s' TEST_CONF) n = bit (regs s TEST_CONF) n"
    unfolding assms(2) using set_signals_bit [OF assms(1)] by blast
  moreover have "r \<noteq> TEST_CONF \<longrightarrow> regs s' r = regs s r"
    unfolding assms(2) by (simp add: set_signals_regs_other)
  ultimately show ?thesis by blast
qed

theorem set_signals_read_modify_write_witness:
  "wf_layout esp32s3_layout
    \<and> trace (usb_wrap_ll_phy_test_mode_set_signals esp32s3_layout
          True True True True True True sentinel_state) =
        [Load TEST_CONF,
         Store TEST_CONF
           (regs (usb_wrap_ll_phy_test_mode_set_signals esp32s3_layout
              True True True True True True sentinel_state) TEST_CONF)]
    \<and> field_of esp32s3_layout test_usb_wrap_oe
        (usb_wrap_ll_phy_test_mode_set_signals esp32s3_layout
          True True True True True True sentinel_state) = 1
    \<and> field_of esp32s3_layout test_rx_rcv
        (usb_wrap_ll_phy_test_mode_set_signals esp32s3_layout
          True True True True True True sentinel_state) = 1
    \<and> bit (regs (usb_wrap_ll_phy_test_mode_set_signals esp32s3_layout
          True True True True True True sentinel_state) TEST_CONF) 31
    \<and> regs (usb_wrap_ll_phy_test_mode_set_signals esp32s3_layout
          True True True True True True sentinel_state) OTG_CONF = 0x80000001"
proof -
  have sentinel: "bit (regs sentinel_state TEST_CONF) 31"
    "regs sentinel_state OTG_CONF = 0x80000001"
    by (simp_all add: sentinel_state_def bit_simps)
  show ?thesis
    using set_signals_read_modify_write [OF esp32s3_layout_wf refl,
        where n = 31 and r = OTG_CONF and s = sentinel_state and oen = True and tx_dp = True
          and tx_dm = True and rx_dp = True and rx_dm = True and rx_rcv = True]
      esp32s3_layout_wf sentinel
    by (simp add: of_c_bool_simps owns_def sentinel_state_def)
qed

section \<open>Overrides\<close>

text \<open>
  Claim C5. Each of the three disable operations (session-end, voltage threshold, pull
  resistors) makes one access, the write of 0 to its override-active bit, which then reads
  0; the value fields of its group (\<^verbatim>\<open>srp_sessend_value\<close>; \<^verbatim>\<open>vrefh\<close> and
  \<^verbatim>\<open>vrefl\<close>; \<^verbatim>\<open>dp_pullup\<close>, \<^verbatim>\<open>dm_pullup\<close>, \<^verbatim>\<open>dp_pulldown\<close>,
  \<^verbatim>\<open>dm_pulldown\<close>) keep their prior values, and so does every register bit other than
  the override-active bit.
\<close>

theorem disable_override_clears_only_override:
  assumes "wf_layout L"
  shows "trace (usb_wrap_ll_phy_disable_srp_sessend_override L s) =
        trace s @ [FieldStore srp_sessend_override 0]
    \<and> field_of L srp_sessend_override (usb_wrap_ll_phy_disable_srp_sessend_override L s) = 0
    \<and> field_of L srp_sessend_value (usb_wrap_ll_phy_disable_srp_sessend_override L s) =
        field_of L srp_sessend_value s
    \<and> (\<forall>r n. \<not> (r = OTG_CONF \<and> owns L srp_sessend_override n) \<longrightarrow>
         bit (regs (usb_wrap_ll_phy_disable_srp_sessend_override L s) r) n = bit (regs s r) n)
    \<and> trace (usb_wrap_ll_phy_disable_vref_override L s) =
        trace s @ [FieldStore vref_override 0]
    \<and> field_of L vref_override (usb_wrap_ll_phy_disable_vref_override L s) = 0
    \<and> field_of L vrefh (usb_wrap_ll_phy_disable_vref_override L s) = field_of L vrefh s
    \<and> field_of L vrefl (usb_wrap_ll_phy_disable_vref_override L s) = field_of L vrefl s
    \<and> (\<forall>r n. \<not> (r = OTG_CONF \<and> owns L vref_override n) \<longrightarrow>
         bit (regs (usb_wrap_ll_phy_disable_vref_override L s) r) n = bit (regs s r) n)
    \<and> trace (usb_wrap_ll_phy_disable_pull_override L s) =
        trace s @ [FieldStore pad_pull_override 0]
    \<and> field_of L pad_pull_override (usb_wrap_ll_phy_disable_pull_override L s) = 0
    \<and> field_of L dp_pullup (usb_wrap_ll_phy_disable_pull_override L s) = field_of L dp_pullup s
    \<and> field_of L dm_pullup (usb_wrap_ll_phy_disable_pull_override L s) = field_of L dm_pullup s
    \<and> field_of L dp_pulldown (usb_wrap_ll_phy_disable_pull_override L s) =
        field_of L dp_pulldown s
    \<and> field_of L dm_pulldown (usb_wrap_ll_phy_disable_pull_override L s) =
        field_of L dm_pulldown s
    \<and> (\<forall>r n. \<not> (r = OTG_CONF \<and> owns L pad_pull_override n) \<longrightarrow>
         bit (regs (usb_wrap_ll_phy_disable_pull_override L s) r) n = bit (regs s r) n)"
  using assms
  by (simp add: usb_wrap_ll_phy_disable_srp_sessend_override_def
      usb_wrap_ll_phy_disable_vref_override_def usb_wrap_ll_phy_disable_pull_override_def
      trace_store_field field_of_store_field bit_regs_store_field)

theorem disable_override_clears_only_override_witness:
  "wf_layout esp32s3_layout
    \<and> trace (usb_wrap_ll_phy_disable_srp_sessend_override esp32s3_layout all_ones) =
        [FieldStore srp_sessend_override 0]
    \<and> field_of esp32s3_layout srp_sessend_override
        (usb_wrap_ll_phy_disable_srp_sessend_override esp32s3_layout all_ones) = 0
    \<and> field_of esp32s3_layout srp_sessend_value
        (usb_wrap_ll_phy_disable_srp_sessend_override esp32s3_layout all_ones) = 1
    \<and> field_of esp32s3_layout vref_override
        (usb_wrap_ll_phy_disable_vref_override esp32s3_layout all_ones) = 0
    \<and> field_of esp32s3_layout vrefh
        (usb_wrap_ll_phy_disable_vref_override esp32s3_layout all_ones) = 3
    \<and> field_of esp32s3_layout vrefl
        (usb_wrap_ll_phy_disable_vref_override esp32s3_layout all_ones) = 3
    \<and> field_of esp32s3_layout pad_pull_override
        (usb_wrap_ll_phy_disable_pull_override esp32s3_layout all_ones) = 0
    \<and> field_of esp32s3_layout dp_pullup
        (usb_wrap_ll_phy_disable_pull_override esp32s3_layout all_ones) = 1
    \<and> field_of esp32s3_layout dm_pullup
        (usb_wrap_ll_phy_disable_pull_override esp32s3_layout all_ones) = 1
    \<and> field_of esp32s3_layout dp_pulldown
        (usb_wrap_ll_phy_disable_pull_override esp32s3_layout all_ones) = 1
    \<and> field_of esp32s3_layout dm_pulldown
        (usb_wrap_ll_phy_disable_pull_override esp32s3_layout all_ones) = 1"
proof -
  have ones: "field_of esp32s3_layout srp_sessend_value all_ones = 1"
    "field_of esp32s3_layout vrefh all_ones = 3"
    "field_of esp32s3_layout vrefl all_ones = 3"
    "field_of esp32s3_layout dp_pullup all_ones = 1"
    "field_of esp32s3_layout dm_pullup all_ones = 1"
    "field_of esp32s3_layout dp_pulldown all_ones = 1"
    "field_of esp32s3_layout dm_pulldown all_ones = 1"
    by (simp_all add: field_of_def get_fld_def field_get_def all_ones_def)
  show ?thesis
    using disable_override_clears_only_override [OF esp32s3_layout_wf, of all_ones]
      esp32s3_layout_wf ones
    by (simp add: all_ones_def)
qed

text \<open>
  Claim C6. For each override group, the enable operation followed at once by the disable
  operation leaves the override-active bit 0 and every other field the pair wrote at the
  value written last: \<^verbatim>\<open>exchg_pins\<close> is 0 for pin exchange, and for the session-end,
  voltage-threshold and pull-resistor groups the value fields hold what the enable call
  stored (the voltage steps converted to two bits).
\<close>

theorem enable_then_disable_override:
  assumes "wf_layout L"
  shows "field_of L exchg_pins_override
        (usb_wrap_ll_phy_enable_pin_exchg L False (usb_wrap_ll_phy_enable_pin_exchg L True s)) = 0
    \<and> field_of L exchg_pins
        (usb_wrap_ll_phy_enable_pin_exchg L False (usb_wrap_ll_phy_enable_pin_exchg L True s)) = 0
    \<and> field_of L srp_sessend_override
        (usb_wrap_ll_phy_disable_srp_sessend_override L
          (usb_wrap_ll_phy_enable_srp_sessend_override L sessend s)) = 0
    \<and> field_of L srp_sessend_value
        (usb_wrap_ll_phy_disable_srp_sessend_override L
          (usb_wrap_ll_phy_enable_srp_sessend_override L sessend s)) = of_c_bool sessend
    \<and> field_of L vref_override
        (usb_wrap_ll_phy_disable_vref_override L
          (usb_wrap_ll_phy_enable_vref_override L vrefh_step vrefl_step s)) = 0
    \<and> field_of L vrefh
        (usb_wrap_ll_phy_disable_vref_override L
          (usb_wrap_ll_phy_enable_vref_override L vrefh_step vrefl_step s)) = take_bit 2 vrefh_step
    \<and> field_of L vrefl
        (usb_wrap_ll_phy_disable_vref_override L
          (usb_wrap_ll_phy_enable_vref_override L vrefh_step vrefl_step s)) = take_bit 2 vrefl_step
    \<and> field_of L pad_pull_override
        (usb_wrap_ll_phy_disable_pull_override L
          (usb_wrap_ll_phy_enable_pull_override L dp_pu dm_pu dp_pd dm_pd s)) = 0
    \<and> field_of L dp_pullup
        (usb_wrap_ll_phy_disable_pull_override L
          (usb_wrap_ll_phy_enable_pull_override L dp_pu dm_pu dp_pd dm_pd s)) = of_c_bool dp_pu
    \<and> field_of L dm_pullup
        (usb_wrap_ll_phy_disable_pull_override L
          (usb_wrap_ll_phy_enable_pull_override L dp_pu dm_pu dp_pd dm_pd s)) = of_c_bool dm_pu
    \<and> field_of L dp_pulldown
        (usb_wrap_ll_phy_disable_pull_override L
          (usb_wrap_ll_phy_enable_pull_override L dp_pu dm_pu dp_pd dm_pd s)) = of_c_bool dp_pd
    \<and> field_of L dm_pulldown
        (usb_wrap_ll_phy_disable_pull_override L
          (usb_wrap_ll_phy_enable_pull_override L dp_pu dm_pu dp_pd dm_pd s)) = of_c_bool dm_pd"
  using assms
  by (simp add: usb_wrap_ll_phy_enable_pin_exchg_def
      usb_wrap_ll_phy_enable_srp_sessend_override_def
      usb_wrap_ll_phy_disable_srp_sessend_override_def
      usb_wrap_ll_phy_enable_vref_override_def usb_wrap_ll_phy_disable_vref_override_def
      usb_wrap_ll_phy_enable_pull_override_def usb_wrap_ll_phy_disable_pull_override_def
      field_of_store_field of_c_bool_mod2)

theorem enable_then_disable_override_witness:
  "wf_layout esp32s3_layout
    \<and> field_of esp32s3_layout exchg_pins_override
        (usb_wrap_ll_phy_enable_pin_exchg esp32s3_layout False
          (usb_wrap_ll_phy_enable_pin_exchg esp32s3_layout True all_ones)) = 0
    \<and> field_of esp32s3_layout exchg_pins
        (usb_wrap_ll_phy_enable_pin_exchg esp32s3_layout False
          (usb_wrap_ll_phy_enable_pin_exchg esp32s3_layout True all_ones)) = 0
    \<and> field_of esp32s3_layout srp_sessend_override
        (usb_wrap_ll_phy_disable_srp_sessend_override esp32s3_layout
          (usb_wrap_ll_phy_enable_srp_sessend_override esp32s3_layout True all_ones)) = 0
    \<and> field_of esp32s3_layout srp_sessend_value
        (usb_wrap_ll_phy_disable_srp_sessend_override esp32s3_layout
          (usb_wrap_ll_phy_enable_srp_sessend_override esp32s3_layout True all_ones)) = 1
    \<and> field_of esp32s3_layout vref_override
        (usb_wrap_ll_phy_disable_vref_override esp32s3_layout
          (usb_wrap_ll_phy_enable_vref_override esp32s3_layout 7 1 all_ones)) = 0
    \<and> field_of esp32s3_layout vrefh
        (usb_wrap_ll_phy_disable_vref_override esp32s3_layout
          (usb_wrap_ll_phy_enable_vref_override esp32s3_layout 7 1 all_ones)) = 3
    \<and> field_of esp32s3_layout vrefl
        (usb_wrap_ll_phy_disable_vref_override esp32s3_layout
          (usb_wrap_ll_phy_enable_vref_override esp32s3_layout 7 1 all_ones)) = 1
    \<and> field_of esp32s3_layout pad_pull_override
        (usb_wrap_ll_phy_disable_pull_override esp32s3_layout
          (usb_wrap_ll_phy_enable_pull_override esp32s3_layout True False True False all_ones)) = 0
    \<and> field_of esp32s3_layout dp_pullup
        (usb_wrap_ll_phy_disable_pull_override esp32s3_layout
          (usb_wrap_ll_phy_enable_pull_override esp32s3_layout True False True False all_ones)) = 1
    \<and> field_of esp32s3_layout dm_pullup
        (usb_wrap_ll_phy_disable_pull_override esp32s3_layout
          (usb_wrap_ll_phy_enable_pull_override esp32s3_layout True False True False all_ones)) = 0
    \<and> field_of esp32s3_layout dp_pulldown
        (usb_wrap_ll_phy_disable_pull_override esp32s3_layout
          (usb_wrap_ll_phy_enable_pull_override esp32s3_layout True False True False all_ones)) = 1
    \<and> field_of esp32s3_layout dm_pulldown
        (usb_wrap_ll_phy_disable_pull_override esp32s3_layout
          (usb_wrap_ll_phy_enable_pull_override esp32s3_layout True False True False all_ones)) = 0"
  using enable_then_disable_override
    [OF esp32s3_layout_wf, of all_ones True 7 1 True False True False]
    esp32s3_layout_wf
  by (simp add: of_c_bool_simps)

lemma unat_take_bit_2: "unat (take_bit 2 (v :: 32 word)) = unat v mod 4"
  by (simp add: take_bit_eq_mod unat_mod_distrib)

text \<open>
  Claim C7. \<^verbatim>\<open>usb_wrap_ll_phy_enable_vref_override\<close> accepts every pair of unsigned
  step arguments; it writes \<^verbatim>\<open>vrefh\<close>, then \<^verbatim>\<open>vrefl\<close>, then asserts
  \<^verbatim>\<open>vref_override\<close>, and the two step fields read back as the arguments modulo 4.
  Called with 2 and 1 it leaves \<^verbatim>\<open>vrefh\<close> = 2, \<^verbatim>\<open>vrefl\<close> = 1 and
  \<^verbatim>\<open>vref_override\<close> = 1. No other field and no register bit outside these three
  fields changes.
\<close>

theorem enable_vref_override_truncates:
  assumes "wf_layout L"
  shows "trace (usb_wrap_ll_phy_enable_vref_override L vrefh_step vrefl_step s) =
        trace s @ [FieldStore vrefh (take_bit 2 vrefh_step),
                   FieldStore vrefl (take_bit 2 vrefl_step),
                   FieldStore vref_override 1]
    \<and> unat (field_of L vrefh (usb_wrap_ll_phy_enable_vref_override L vrefh_step vrefl_step s))
        = unat vrefh_step mod 4
    \<and> unat (field_of L vrefl (usb_wrap_ll_phy_enable_vref_override L vrefh_step vrefl_step s))
        = unat vrefl_step mod 4
    \<and> field_of L vref_override
        (usb_wrap_ll_phy_enable_vref_override L vrefh_step vrefl_step s) = 1
    \<and> field_of L vrefh (usb_wrap_ll_phy_enable_vref_override L 2 1 s) = 2
    \<and> field_of L vrefl (usb_wrap_ll_phy_enable_vref_override L 2 1 s) = 1
    \<and> field_of L vref_override (usb_wrap_ll_phy_enable_vref_override L 2 1 s) = 1
    \<and> (\<forall>f. f \<noteq> vrefh \<and> f \<noteq> vrefl \<and> f \<noteq> vref_override \<longrightarrow>
          field_of L f (usb_wrap_ll_phy_enable_vref_override L vrefh_step vrefl_step s)
            = field_of L f s)
    \<and> (\<forall>r n. \<not> (r = OTG_CONF \<and> (owns L vrefh n \<or> owns L vrefl n \<or> owns L vref_override n))
          \<longrightarrow> bit (regs (usb_wrap_ll_phy_enable_vref_override L vrefh_step vrefl_step s) r) n
            = bit (regs s r) n)"
  using assms
  by (simp add: usb_wrap_ll_phy_enable_vref_override_def trace_store_field
      field_of_store_field bit_regs_store_field unat_take_bit_2)

theorem enable_vref_override_truncates_witness:
  "wf_layout esp32s3_layout
    \<and> trace (usb_wrap_ll_phy_enable_vref_override esp32s3_layout 6 5 all_zeros) =
        [FieldStore vrefh 2, FieldStore vrefl 1, FieldStore vref_override 1]
    \<and> unat (field_of esp32s3_layout vrefh
        (usb_wrap_ll_phy_enable_vref_override esp32s3_layout 6 5 all_zeros)) = 2
    \<and> unat (field_of esp32s3_layout vrefl
        (usb_wrap_ll_phy_enable_vref_override esp32s3_layout 6 5 all_zeros)) = 1
    \<and> field_of esp32s3_layout vref_override
        (usb_wrap_ll_phy_enable_vref_override esp32s3_layout 6 5 all_zeros) = 1
    \<and> field_of esp32s3_layout vrefh
        (usb_wrap_ll_phy_enable_vref_override esp32s3_layout 2 1 all_zeros) = 2
    \<and> field_of esp32s3_layout vrefl
        (usb_wrap_ll_phy_enable_vref_override esp32s3_layout 2 1 all_zeros) = 1
    \<and> field_of esp32s3_layout vref_override
        (usb_wrap_ll_phy_enable_vref_override esp32s3_layout 2 1 all_zeros) = 1"
  using enable_vref_override_truncates [OF esp32s3_layout_wf, of 6 5 all_zeros]
    esp32s3_layout_wf
  by (simp add: all_zeros_def)

text \<open>
  Claim C8. \<^verbatim>\<open>usb_wrap_ll_phy_enable_pull_override\<close> is defined for every combination
  of its four boolean arguments, contradictory ones included (it returns a state, with no
  error value): it writes the four pull-direction bits, each equal to its argument, and
  last asserts \<^verbatim>\<open>pad_pull_override\<close>. The example has pull-up and pull-down both on
  for D+.
\<close>

theorem enable_pull_override_total:
  assumes "wf_layout L"
  shows "trace (usb_wrap_ll_phy_enable_pull_override L dp_pu dm_pu dp_pd dm_pd s) =
        trace s @ [FieldStore dp_pullup (of_c_bool dp_pu),
                   FieldStore dp_pulldown (of_c_bool dp_pd),
                   FieldStore dm_pullup (of_c_bool dm_pu),
                   FieldStore dm_pulldown (of_c_bool dm_pd),
                   FieldStore pad_pull_override 1]
    \<and> field_of L dp_pullup (usb_wrap_ll_phy_enable_pull_override L dp_pu dm_pu dp_pd dm_pd s)
        = of_c_bool dp_pu
    \<and> field_of L dm_pullup (usb_wrap_ll_phy_enable_pull_override L dp_pu dm_pu dp_pd dm_pd s)
        = of_c_bool dm_pu
    \<and> field_of L dp_pulldown (usb_wrap_ll_phy_enable_pull_override L dp_pu dm_pu dp_pd dm_pd s)
        = of_c_bool dp_pd
    \<and> field_of L dm_pulldown (usb_wrap_ll_phy_enable_pull_override L dp_pu dm_pu dp_pd dm_pd s)
        = of_c_bool dm_pd
    \<and> field_of L pad_pull_override
        (usb_wrap_ll_phy_enable_pull_override L dp_pu dm_pu dp_pd dm_pd s) = 1"
  using assms
  by (simp add: usb_wrap_ll_phy_enable_pull_override_def trace_store_field
      field_of_store_field of_c_bool_mod2)

theorem enable_pull_override_total_witness:
  "wf_layout esp32s3_layout
    \<and> trace (usb_wrap_ll_phy_enable_pull_override esp32s3_layout True False True False all_zeros)
        = [FieldStore dp_pullup 1, FieldStore dp_pulldown 1, FieldStore dm_pullup 0,
           FieldStore dm_pulldown 0, FieldStore pad_pull_override 1]
    \<and> field_of esp32s3_layout dp_pullup
        (usb_wrap_ll_phy_enable_pull_override esp32s3_layout True False True False all_zeros) = 1
    \<and> field_of esp32s3_layout dm_pullup
        (usb_wrap_ll_phy_enable_pull_override esp32s3_layout True False True False all_zeros) = 0
    \<and> field_of esp32s3_layout dp_pulldown
        (usb_wrap_ll_phy_enable_pull_override esp32s3_layout True False True False all_zeros) = 1
    \<and> field_of esp32s3_layout dm_pulldown
        (usb_wrap_ll_phy_enable_pull_override esp32s3_layout True False True False all_zeros) = 0
    \<and> field_of esp32s3_layout pad_pull_override
        (usb_wrap_ll_phy_enable_pull_override esp32s3_layout True False True False all_zeros) = 1"
  using enable_pull_override_total [OF esp32s3_layout_wf, of True False True False all_zeros]
    esp32s3_layout_wf
  by (simp add: of_c_bool_simps all_zeros_def)

section \<open>Pads and test mode\<close>

lemma to_c_bool_get_fld:
  "width f = 1 \<Longrightarrow> to_c_bool (get_fld L f r) = bit r (L f)"
  by (simp add: to_c_bool_def get_fld_def field_get_def bit_iff_odd_drop_bit
      take_bit_eq_mod even_iff_mod_2_eq_zero)

text \<open>
  Claim C9. \<^verbatim>\<open>usb_wrap_ll_phy_is_pad_enabled\<close> returns the current value of the
  \<^verbatim>\<open>pad_enable\<close> bit and writes nothing: every register is as before and its one
  access is a read. After \<^verbatim>\<open>usb_wrap_ll_phy_enable_pad\<close> it returns the value given
  there.
\<close>

theorem is_pad_enabled_pure_read:
  assumes "wf_layout L"
  shows "fst (usb_wrap_ll_phy_is_pad_enabled L s) = bit (regs s OTG_CONF) (L pad_enable)
    \<and> regs (snd (usb_wrap_ll_phy_is_pad_enabled L s)) = regs s
    \<and> trace (snd (usb_wrap_ll_phy_is_pad_enabled L s)) = trace s @ [FieldLoad pad_enable]
    \<and> filter is_write (trace (snd (usb_wrap_ll_phy_is_pad_enabled L s)))
        = filter is_write (trace s)
    \<and> fst (usb_wrap_ll_phy_is_pad_enabled L (usb_wrap_ll_phy_enable_pad L enable s)) = enable"
proof -
  have "fst (usb_wrap_ll_phy_is_pad_enabled L s) = bit (regs s OTG_CONF) (L pad_enable)"
    by (simp add: usb_wrap_ll_phy_is_pad_enabled_def load_field_def field_of_def
        to_c_bool_get_fld)
  moreover have "regs (snd (usb_wrap_ll_phy_is_pad_enabled L s)) = regs s"
    and "trace (snd (usb_wrap_ll_phy_is_pad_enabled L s)) = trace s @ [FieldLoad pad_enable]"
    and "filter is_write (trace (snd (usb_wrap_ll_phy_is_pad_enabled L s)))
        = filter is_write (trace s)"
    by (simp_all add: usb_wrap_ll_phy_is_pad_enabled_def load_field_def)
  moreover have
    "fst (usb_wrap_ll_phy_is_pad_enabled L (usb_wrap_ll_phy_enable_pad L enable s)) = enable"
    using assms
    by (simp add: usb_wrap_ll_phy_is_pad_enabled_def load_field_def
        usb_wrap_ll_phy_enable_pad_def field_of_store_field of_c_bool_mod2)
      (simp add: to_c_bool_def of_c_bool_def)
  ultimately show ?thesis by blast
qed

theorem is_pad_enabled_pure_read_witness:
  "wf_layout esp32s3_layout
    \<and> fst (usb_wrap_ll_phy_is_pad_enabled esp32s3_layout all_ones)
    \<and> regs (snd (usb_wrap_ll_phy_is_pad_enabled esp32s3_layout all_ones)) = regs all_ones
    \<and> trace (snd (usb_wrap_ll_phy_is_pad_enabled esp32s3_layout all_ones)) = [FieldLoad pad_enable]
    \<and> \<not> fst (usb_wrap_ll_phy_is_pad_enabled esp32s3_layout
          (usb_wrap_ll_phy_enable_pad esp32s3_layout False all_ones))"
  using is_pad_enabled_pure_read [OF esp32s3_layout_wf, of all_ones False] esp32s3_layout_wf
  by (simp add: all_ones_def)

lemma call_keeps_test_enable:
  assumes "wf_layout L" and "\<not> is_enable_test_mode op"
  shows "field_of L test_enable (call L op s) = field_of L test_enable s"
proof (cases op)
  case (Test_mode_set_signals oen tx_dp tx_dm rx_dp rx_dm rx_rcv)
  then show ?thesis using assms(1) by (simp add: set_signals_field)
next
  case Is_pad_enabled
  then show ?thesis
    by (simp add: usb_wrap_ll_phy_is_pad_enabled_def load_field_def field_of_def)
next
  case (Enable_pin_exchg enable)
  then show ?thesis using assms(1)
    by (simp add: usb_wrap_ll_phy_enable_pin_exchg_def field_of_store_field)
next
  case (Enable_test_mode enable)
  then show ?thesis using assms(2) by simp
qed (use assms(1) in \<open>simp_all add: field_of_store_field
      usb_wrap_ll_phy_enable_srp_sessend_override_def
      usb_wrap_ll_phy_disable_srp_sessend_override_def
      usb_wrap_ll_phy_enable_external_def
      usb_wrap_ll_phy_enable_vref_override_def
      usb_wrap_ll_phy_disable_vref_override_def
      usb_wrap_ll_phy_enable_pull_override_def
      usb_wrap_ll_phy_disable_pull_override_def
      usb_wrap_ll_phy_set_pullup_strength_def
      usb_wrap_ll_phy_enable_pad_def
      usb_wrap_ll_phy_set_tx_edge_def
      usb_wrap_ll_enable_bus_clock_def
      usb_wrap_ll_reset_register_def\<close>)

text \<open>
  Claim C10. \<^verbatim>\<open>usb_wrap_ll_phy_test_mode_set_signals\<close> leaves \<^verbatim>\<open>test_enable\<close>
  as it was, for every prior state and every choice of the six signals; so does every
  other function of the header except \<^verbatim>\<open>usb_wrap_ll_phy_enable_test_mode\<close>, which
  sets it to its argument.
\<close>

theorem set_signals_keeps_test_enable:
  assumes "wf_layout L"
  shows "field_of L test_enable
        (usb_wrap_ll_phy_test_mode_set_signals L oen tx_dp tx_dm rx_dp rx_dm rx_rcv s)
        = field_of L test_enable s
    \<and> (\<not> is_enable_test_mode op \<longrightarrow>
          field_of L test_enable (call L op s) = field_of L test_enable s)
    \<and> field_of L test_enable (usb_wrap_ll_phy_enable_test_mode L enable s) = of_c_bool enable"
  using assms
  by (simp add: set_signals_field call_keeps_test_enable
      usb_wrap_ll_phy_enable_test_mode_def field_of_store_field of_c_bool_mod2)

theorem set_signals_keeps_test_enable_witness:
  "wf_layout esp32s3_layout
    \<and> field_of esp32s3_layout test_enable
        (usb_wrap_ll_phy_test_mode_set_signals esp32s3_layout True True True True True True
          sentinel_state) = 1
    \<and> field_of esp32s3_layout test_enable
        (usb_wrap_ll_phy_test_mode_set_signals esp32s3_layout False False False False False False
          sentinel_state) = 1
    \<and> \<not> is_enable_test_mode Reset_register
    \<and> field_of esp32s3_layout test_enable (call esp32s3_layout Reset_register sentinel_state) = 1
    \<and> field_of esp32s3_layout test_enable
        (usb_wrap_ll_phy_enable_test_mode esp32s3_layout False sentinel_state) = 0"
proof -
  have before: "field_of esp32s3_layout test_enable sentinel_state = 1"
    by (simp add: field_of_def get_fld_def field_get_def sentinel_state_def)
  show ?thesis
    using set_signals_keeps_test_enable
        [OF esp32s3_layout_wf, of True True True True True True sentinel_state Reset_register False]
      set_signals_keeps_test_enable
        [OF esp32s3_layout_wf, of False False False False False False sentinel_state Reset_register False]
      esp32s3_layout_wf before
    by (simp add: of_c_bool_simps)
qed

end
